theory Spec2Isabelle
  imports Main "HOL-Library.Word" "HOL-Library.Sublist"
begin

section \<open>Errors\<close>

text \<open>
  Go's \<^verbatim>\<open>error\<close> values that the two key stores produce or hand on. The sentinels of
  package \<^verbatim>\<open>kv\<close> (\<^verbatim>\<open>kv.ErrExists\<close>, \<^verbatim>\<open>kv.ErrNotExists\<close>) and of package \<^verbatim>\<open>kes\<close>
  (\<^verbatim>\<open>kes.ErrKeyExists\<close>, \<^verbatim>\<open>kes.ErrKeyNotFound\<close>, \<^verbatim>\<open>kes.ErrNotAllowed\<close>) are distinct
  values. \<open>ErrorString\<close> is an error made by \<^verbatim>\<open>fmt.Errorf\<close> without \<^verbatim>\<open>%w\<close> (or by
  \<^verbatim>\<open>errors.New\<close>, or any opaque error of a library); \<open>WrapError msg e\<close> is one made
  by \<^verbatim>\<open>fmt.Errorf("...: %w", e)\<close>, which \<^verbatim>\<open>errors.Is\<close> looks through.
\<close>

datatype error =
    ErrExists
  | ErrNotExists
  | ErrKeyExists
  | ErrKeyNotFound
  | ErrNotAllowed
  | ErrorString string
  | WrapError string error

fun errors_Is :: "error \<Rightarrow> error \<Rightarrow> bool" where
  "errors_Is (WrapError msg e) target = (WrapError msg e = target \<or> errors_Is e target)"
| "errors_Is e target = (e = target)"

section \<open>Bytes and strings\<close>

text \<open>
  Go's \<^verbatim>\<open>[]byte\<close> is a list of 8-bit words; Go's \<^verbatim>\<open>string\<close> is a sequence of bytes too,
  here a \<open>string\<close> (each \<open>char\<close> is one byte). \<open>string_of_bytes\<close> is the conversion
  \<^verbatim>\<open>string(b)\<close>, \<open>bytes_of_string\<close> is \<^verbatim>\<open>[]byte(s)\<close>: both copy the bytes.
\<close>

type_synonym byte = "8 word"

definition string_of_bytes :: "byte list \<Rightarrow> string" where
  "string_of_bytes bs = map (\<lambda>b. char_of (unat b)) bs"

definition bytes_of_string :: "string \<Rightarrow> byte list" where
  "bytes_of_string s = map (\<lambda>c. of_nat (of_char c)) s"

text \<open>\<^verbatim>\<open>strings.TrimPrefix(s, prefix)\<close>.\<close>

definition strings_TrimPrefix :: "string \<Rightarrow> string \<Rightarrow> string" where
  "strings_TrimPrefix s p = (if prefix p s then drop (length p) s else s)"

text \<open>\<^verbatim>\<open>%d\<close> of a length: the decimal digits of a natural number.\<close>

fun itoa :: "nat \<Rightarrow> string" where
  "itoa n = (if n < 10 then [''0123456789'' ! n]
             else itoa (n div 10) @ [''0123456789'' ! (n mod 10)])"

declare itoa.simps [simp del]

section \<open>The value codec\<close>

subsection \<open>Base64, standard alphabet with padding\<close>

text \<open>
  \<^verbatim>\<open>base64.StdEncoding\<close> of Go's library (RFC 4648): the test
  \<^verbatim>\<open>TestStore_put\<close> fixes the alphabet and the padding (\<^verbatim>\<open>"Base64:AAECAwQFBgcICQpQcnr/eWts/w=="\<close>).
  Three bytes make a 24-bit group \<open>val\<close>, written as four characters of the alphabet, six
  bits each (\<^verbatim>\<open>val>>18&0x3F\<close> is \<open>val div 262144 mod 64\<close>, and so on); a last group of
  one or two bytes is padded with \<^verbatim>\<open>=\<close>.
\<close>

definition encodeStd :: string where
  "encodeStd = ''ABCDEFGHIJKLMNOPQRSTUVWXYZabcdefghijklmnopqrstuvwxyz0123456789+/''"

fun EncodeToString :: "byte list \<Rightarrow> string" where
  "EncodeToString [] = []"
| "EncodeToString [b0] =
     (let val = unat b0 * 65536
      in [encodeStd ! (val div 262144 mod 64), encodeStd ! (val div 4096 mod 64),
          CHR ''='', CHR ''=''])"
| "EncodeToString [b0, b1] =
     (let val = unat b0 * 65536 + unat b1 * 256
      in [encodeStd ! (val div 262144 mod 64), encodeStd ! (val div 4096 mod 64),
          encodeStd ! (val div 64 mod 64), CHR ''=''])"
| "EncodeToString (b0 # b1 # b2 # bs) =
     (let val = unat b0 * 65536 + unat b1 * 256 + unat b2
      in [encodeStd ! (val div 262144 mod 64), encodeStd ! (val div 4096 mod 64),
          encodeStd ! (val div 64 mod 64), encodeStd ! (val mod 64)]
         @ EncodeToString bs)"

text \<open>The decoder's table: the position of a character in the alphabet, if it has one.\<close>

definition decodeMap :: "char \<Rightarrow> nat option" where
  "decodeMap c = map_of (zip encodeStd [0..<64]) c"

text \<open>
  \<^verbatim>\<open>base64.CorruptInputError\<close>; the offset that Go's message carries is left out.
\<close>

definition CorruptInputError :: error where
  "CorruptInputError = ErrorString ''illegal base64 data''"

text \<open>
  Decoding group by group: four characters of the alphabet give three bytes; padding is
  accepted in the last group only; anything else is corrupt input. As in Go's lenient
  decoder, the unused low bits of a padded group are not checked.
\<close>

fun decodeQuanta :: "string \<Rightarrow> error + byte list" where
  "decodeQuanta [] = Inr []"
| "decodeQuanta (c0 # c1 # c2 # c3 # cs) =
     (case decodeMap c0 of
        None \<Rightarrow> Inl CorruptInputError
      | Some d0 \<Rightarrow>
     (case decodeMap c1 of
        None \<Rightarrow> Inl CorruptInputError
      | Some d1 \<Rightarrow>
     (case decodeMap c2 of
        None \<Rightarrow>
          if c2 = CHR ''='' \<and> c3 = CHR ''='' \<and> cs = []
          then (let val = d0 * 262144 + d1 * 4096
                in Inr [of_nat (val div 65536)])
          else Inl CorruptInputError
      | Some d2 \<Rightarrow>
     (case decodeMap c3 of
        None \<Rightarrow>
          if c3 = CHR ''='' \<and> cs = []
          then (let val = d0 * 262144 + d1 * 4096 + d2 * 64
                in Inr [of_nat (val div 65536), of_nat (val div 256)])
          else Inl CorruptInputError
      | Some d3 \<Rightarrow>
          (let val = d0 * 262144 + d1 * 4096 + d2 * 64 + d3
           in case decodeQuanta cs of
                Inl e \<Rightarrow> Inl e
              | Inr bs \<Rightarrow> Inr (of_nat (val div 65536) # of_nat (val div 256) # of_nat val # bs))))))"
| "decodeQuanta _ = Inl CorruptInputError"

text \<open>\<^verbatim>\<open>DecodeString\<close>: carriage returns and line feeds are skipped, as Go's decoder does.\<close>

definition newline :: "char \<Rightarrow> bool" where
  "newline c = (c = CHR 0x0D \<or> c = CHR 0x0A)"

definition DecodeString :: "string \<Rightarrow> error + byte list" where
  "DecodeString s = decodeQuanta (filter (\<lambda>c. \<not> newline c) s)"

subsection \<open>Valid UTF-8\<close>

text \<open>
  \<^verbatim>\<open>utf8.Valid\<close> of Go's library (RFC 3629). \<open>first x\<close> is what Go's tables give for a
  leading byte \<open>x\<close>: the length of the sequence and the range accepted for its second
  byte, or \<open>None\<close> for a byte that cannot start a sequence. Further bytes are
  continuation bytes, \<^verbatim>\<open>0x80\<close> to \<^verbatim>\<open>0xBF\<close>.
\<close>

definition first :: "nat \<Rightarrow> (nat \<times> nat \<times> nat) option" where
  "first x =
     (if x < 0x80 then Some (1, 0x80, 0xBF)
      else if x < 0xC2 then None
      else if x < 0xE0 then Some (2, 0x80, 0xBF)
      else if x = 0xE0 then Some (3, 0xA0, 0xBF)
      else if x < 0xED then Some (3, 0x80, 0xBF)
      else if x = 0xED then Some (3, 0x80, 0x9F)
      else if x < 0xF0 then Some (3, 0x80, 0xBF)
      else if x = 0xF0 then Some (4, 0x90, 0xBF)
      else if x < 0xF4 then Some (4, 0x80, 0xBF)
      else if x = 0xF4 then Some (4, 0x80, 0x8F)
      else None)"

definition in_range :: "byte \<Rightarrow> nat \<Rightarrow> nat \<Rightarrow> bool" where
  "in_range c lo hi = (lo \<le> unat c \<and> unat c \<le> hi)"

function utf8_Valid :: "byte list \<Rightarrow> bool" where
  "utf8_Valid [] = True"
| "utf8_Valid (b0 # bs) =
     (case first (unat b0) of
        None \<Rightarrow> False
      | Some (sz, lo, hi) \<Rightarrow>
          if sz = 1 then utf8_Valid bs
          else if length (b0 # bs) < sz then False
          else if \<not> in_range (bs ! 0) lo hi then False
          else if sz = 2 then utf8_Valid (drop 1 bs)
          else if \<not> in_range (bs ! 1) 0x80 0xBF then False
          else if sz = 3 then utf8_Valid (drop 2 bs)
          else if \<not> in_range (bs ! 2) 0x80 0xBF then False
          else utf8_Valid (drop 3 bs))"
  by pat_completeness auto
termination
  by (relation "measure length") auto

subsection \<open>Encoding and decoding a value\<close>

text \<open>
  Modelled from the spec: \<^verbatim>\<open>BytesToJsonString(bytes, forceBase64)\<close>, which \<^verbatim>\<open>put\<close> calls
  and whose declaration is not among the sources. Section 4.1: if \<^verbatim>\<open>forceBinary\<close> is
  true, or the byte sequence is not valid text in the transport's assumed encoding
  (UTF-8), or the textual form would collide with the reserved marker prefix
  \<^verbatim>\<open>"Base64:"\<close>, then encode as base64 and prepend the literal prefix; otherwise encode
  as the raw text representation, unprefixed.
\<close>

definition BytesToJsonString :: "byte list \<Rightarrow> bool \<Rightarrow> string" where
  "BytesToJsonString bytes forceBase64 =
     (if forceBase64 \<or> \<not> utf8_Valid bytes \<or> prefix ''Base64:'' (string_of_bytes bytes)
      then ''Base64:'' @ EncodeToString bytes
      else string_of_bytes bytes)"

text \<open>
  Modelled from the spec: \<^verbatim>\<open>JsonStringToBytes(text)\<close>, which \<^verbatim>\<open>Get\<close> calls and whose
  declaration is not among the sources. Section 4.1: if the string starts with
  \<^verbatim>\<open>"Base64:"\<close>, strip the prefix and base64-decode the remainder (a decode failure is
  an error); otherwise treat the string as the literal byte representation.
\<close>

definition JsonStringToBytes :: "string \<Rightarrow> error + byte list" where
  "JsonStringToBytes text =
     (if prefix ''Base64:'' text
      then DecodeString (strings_TrimPrefix text ''Base64:'')
      else Inr (bytes_of_string text))"

section \<open>The collaborators of the remote store\<close>

text \<open>
  \<^verbatim>\<open>context.Context\<close>, as far as the stores read it: the value that \<^verbatim>\<open>ctx.Err()\<close> reports
  (\<open>None\<close> is Go's \<^verbatim>\<open>nil\<close>).
\<close>

record Context =
  Err :: "error option"

text \<open>\<^verbatim>\<open>type Config struct\<close> of package \<^verbatim>\<open>credhub\<close>.\<close>

record Config =
  BaseUrl :: string
  EnableMutualTls :: bool
  ClientCertFilePath :: string
  ClientKeyFilePath :: string
  ServerCaCertFilePath :: string
  ServerInsecureSkipVerify :: bool
  Namespace :: string
  ForceBase64ValuesEncoding :: bool

text \<open>
  Modelled from the spec: the response descriptor \<^verbatim>\<open>HttpResponse\<close>, whose declaration is
  not among the sources (section 3: status code, status text, body, and an optional
  transport-level error). The fields are the ones \<^verbatim>\<open>FakeHttpClient.DoRequest\<close> fills
  and the store reads. The body is the text that reading the stream to its end gives.
\<close>

record HttpResponse =
  StatusCode :: int
  Status :: string
  Body :: string
  err :: "error option"

text \<open>
  Modelled from the spec: \<^verbatim>\<open>IsStatusCode2xx\<close>, a method of the response descriptor that
  is not among the sources: the status is one of the 2xx codes.
\<close>

definition IsStatusCode2xx :: "HttpResponse \<Rightarrow> bool" where
  "IsStatusCode2xx resp = (200 \<le> StatusCode resp \<and> StatusCode resp < 300)"

text \<open>
  Go's \<^verbatim>\<open>encoding/json\<close>, as the store uses it: \<open>Marshal\<close> of the \<^verbatim>\<open>map[string]string\<close> that
  \<^verbatim>\<open>put\<close> builds (given as its entries in key order); \<open>DecodeData\<close> decodes a body into
  \<^verbatim>\<open>struct { Data []struct { Value string } }\<close> and gives the \<^verbatim>\<open>Value\<close> fields in order;
  \<open>DecodeCredentials\<close> decodes a body into \<^verbatim>\<open>struct { Credentials []struct { Name string } }\<close>
  and gives the \<^verbatim>\<open>Name\<close> fields in order. The library is a parameter of the model.
\<close>

record json =
  Marshal :: "(string \<times> string) list \<Rightarrow> error + string"
  DecodeData :: "string \<Rightarrow> error + string list"
  DecodeCredentials :: "string \<Rightarrow> error + string list"

text \<open>
  What a store operation does to the outside, in order: a call of \<^verbatim>\<open>s.sfGroup.Do\<close> with
  its key, and a request handed to \<^verbatim>\<open>s.client.DoRequest\<close> with method, URI and body.
  A \<open>'w world\<close> is the trace of these events so far, and the state \<open>'w\<close> of whatever is
  behind the HTTP client (the remote service, or the fake client of the tests).
\<close>

datatype event =
    SfDo string
  | Request string string "string option"

type_synonym 'w world = "event list \<times> 'w"

text \<open>
  \<^verbatim>\<open>type Store struct\<close> of package \<^verbatim>\<open>credhub\<close>: the configuration and the HTTP client (the
  interface \<^verbatim>\<open>HttpClient\<close> with its one method \<^verbatim>\<open>DoRequest(ctx, method, url, body)\<close>). The
  field \<^verbatim>\<open>LastError\<close> is never read or written; the calls on \<^verbatim>\<open>sfGroup\<close> are in the trace.
\<close>

record 'w Store =
  config :: Config
  client :: "Context \<Rightarrow> string \<Rightarrow> string \<Rightarrow> string option \<Rightarrow> 'w \<Rightarrow> HttpResponse \<times> 'w"

text \<open>\<^verbatim>\<open>s.client.DoRequest(ctx, method, uri, body)\<close>, recorded in the trace.\<close>

definition DoRequest ::
  "'w Store \<Rightarrow> Context \<Rightarrow> string \<Rightarrow> string \<Rightarrow> string option \<Rightarrow> 'w world
     \<Rightarrow> HttpResponse \<times> 'w world" where
  "DoRequest s c method uri body =
     (\<lambda>(tr, w). case client s c method uri body w of
                  (resp, w') \<Rightarrow> (resp, (tr @ [Request method uri body], w')))"

text \<open>
  \<^verbatim>\<open>s.sfGroup.Do(key, fn)\<close> of \<^verbatim>\<open>singleflight.Group\<close>, for a caller that finds no call with
  this key in flight (the only case of a sequential execution: the group forgets a key
  as soon as its call returns): the call is recorded, \<^verbatim>\<open>fn\<close> runs once, and its result
  is returned.
\<close>

definition sfGroup_Do ::
  "string \<Rightarrow> ('w world \<Rightarrow> 'a \<times> 'w world) \<Rightarrow> 'w world \<Rightarrow> 'a \<times> 'w world" where
  "sfGroup_Do key fn = (\<lambda>(tr, w). fn (tr @ [SfDo key], w))"

section \<open>The remote store\<close>

text \<open>
  \<^verbatim>\<open>func (s *Store) put(ctx, name, value) error\<close>. An \<^verbatim>\<open>error\<close> result is an
  \<open>error option\<close>, \<open>None\<close> for \<^verbatim>\<open>nil\<close>.
\<close>

definition put ::
  "json \<Rightarrow> 'w Store \<Rightarrow> Context \<Rightarrow> string \<Rightarrow> byte list \<Rightarrow> 'w world
     \<Rightarrow> error option \<times> 'w world" where
  "put J s c name val \<sigma> =
     (let uri = ''/api/v1/data'';
          data = [(''name'', Namespace (config s) @ ''/'' @ name),
                  (''type'', ''value''),
                  (''value'', BytesToJsonString val (ForceBase64ValuesEncoding (config s)))]
      in case Marshal J data of
           Inl e \<Rightarrow> (Some e, \<sigma>)
         | Inr payload \<Rightarrow>
             (case DoRequest s c ''PUT'' uri (Some payload) \<sigma> of
                (resp, \<sigma>') \<Rightarrow>
                  (case err resp of
                     Some e \<Rightarrow> (Some e, \<sigma>')
                   | None \<Rightarrow>
                       if IsStatusCode2xx resp then (None, \<sigma>')
                       else (Some (ErrorString (''failed to set entry (status: '' @ Status resp
                                     @ '', response: '' @ Body resp @ '')'')), \<sigma>'))))"

text \<open>\<^verbatim>\<open>func (s *Store) Get(ctx, name) ([]byte, error)\<close>.\<close>

definition Get ::
  "json \<Rightarrow> 'w Store \<Rightarrow> Context \<Rightarrow> string \<Rightarrow> 'w world \<Rightarrow> (error + byte list) \<times> 'w world" where
  "Get J s c name \<sigma> =
     (let uri = ''/api/v1/data?current=true&name='' @ Namespace (config s) @ ''/'' @ name
      in case DoRequest s c ''GET'' uri None \<sigma> of
           (resp, \<sigma>') \<Rightarrow>
             (case err resp of
                Some e \<Rightarrow> (Inl e, \<sigma>')
              | None \<Rightarrow>
                  if StatusCode resp = 404 then (Inl ErrNotExists, \<sigma>')
                  else if \<not> IsStatusCode2xx resp
                  then (Inl (ErrorString (''failed to get entry (status: '' @ Status resp
                               @ '', response: '' @ Body resp @ '')'')), \<sigma>')
                  else (case DecodeData J (Body resp) of
                          Inl e \<Rightarrow> (Inl e, \<sigma>')
                        | Inr responseData \<Rightarrow>
                            if length responseData = 0 then (Inl ErrNotExists, \<sigma>')
                            else if length responseData > 1
                            then (Inl (ErrorString (''received multiple entries (''
                                         @ itoa (length responseData)
                                         @ '') for the same key'')), \<sigma>')
                            else (JsonStringToBytes (responseData ! 0), \<sigma>'))))"


text \<open>
  \<^verbatim>\<open>s.sfGroup.Do(key, fn)\<close> for any state of the group. \<open>g\<close> is the table \<^verbatim>\<open>Group.m\<close> of
  the calls in flight, by key, as the caller finds it; of a call in flight the caller
  reads only what it returns once it is done, and the closures of this store return the
  value \<^verbatim>\<open>nil\<close>, so a call is given by its error. A caller that finds a call with its key
  in the table waits for it and returns what that call returns: \<^verbatim>\<open>fn\<close> is not run. Any
  other caller runs \<^verbatim>\<open>fn\<close>, as above.
\<close>

record call =
  call_err :: "error option"

type_synonym Group = "string \<rightharpoonup> call"

definition Group_Do ::
  "Group \<Rightarrow> string \<Rightarrow> ('w world \<Rightarrow> error option \<times> 'w world) \<Rightarrow> 'w world
     \<Rightarrow> error option \<times> 'w world" where
  "Group_Do g key fn =
     (case g key of
        Some c \<Rightarrow> (\<lambda>(tr, w). (call_err c, (tr @ [SfDo key], w)))
      | None \<Rightarrow> sfGroup_Do key fn)"

text \<open>
  \<^verbatim>\<open>func (s *Store) Set(ctx, name, value) error\<close>, called when the calls in flight in
  \<^verbatim>\<open>s.sfGroup\<close> are \<open>g\<close>. The group and the key are the ones \<^verbatim>\<open>Create\<close> uses.
\<close>

definition Set ::
  "Group \<Rightarrow> json \<Rightarrow> 'w Store \<Rightarrow> Context \<Rightarrow> string \<Rightarrow> byte list \<Rightarrow> 'w world
     \<Rightarrow> error option \<times> 'w world" where
  "Set g J s c name val =
     Group_Do g (Namespace (config s) @ ''/'' @ name) (\<lambda>\<sigma>. put J s c name val \<sigma>)"

text \<open>\<^verbatim>\<open>func (s *Store) Delete(ctx, name) error\<close>.\<close>

definition Delete ::
  "'w Store \<Rightarrow> Context \<Rightarrow> string \<Rightarrow> 'w world \<Rightarrow> error option \<times> 'w world" where
  "Delete s c name \<sigma> =
     (let uri = ''/api/v1/data?name='' @ Namespace (config s) @ ''/'' @ name
      in case DoRequest s c ''DELETE'' uri None \<sigma> of
           (resp, \<sigma>') \<Rightarrow>
             (case err resp of
                Some e \<Rightarrow> (Some e, \<sigma>')
              | None \<Rightarrow>
                  if StatusCode resp = 404 then (Some ErrNotExists, \<sigma>')
                  else if \<not> IsStatusCode2xx resp
                  then (Some (ErrorString (''failed to delete entry: '' @ Status resp
                                @ '', response: '' @ Body resp)), \<sigma>')
                  else (None, \<sigma>')))"

section \<open>The list iterator\<close>

text \<open>
  \<^verbatim>\<open>type keysIter struct { keys []string; index int; ctx context.Context }\<close>,
  declared with the same fields and methods in package \<^verbatim>\<open>credhub\<close> and in package
  \<^verbatim>\<open>staticlist\<close>. A \<^verbatim>\<open>nil\<close> slice is the empty list: both have length 0.
\<close>

record keysIter =
  keys :: "string list"
  index :: int
  ctx :: Context

text \<open>
  \<^verbatim>\<open>func (s *keysIter) Next() (string, bool)\<close>. The result is \<open>None\<close> where Go panics
  with an index out of range (\<^verbatim>\<open>s.keys[s.index]\<close> at a negative index); otherwise the
  pair returned and the iterator after the call.
\<close>

definition Next :: "keysIter \<Rightarrow> ((string \<times> bool) \<times> keysIter) option" where
  "Next s =
     (if index s < int (length (keys s)) then
        (if index s < 0 then None
         else let key = keys s ! nat (index s);
                  s' = s\<lparr>index := index s + 1\<rparr>
              in Some ((key, index s' < int (length (keys s'))), s'))
      else Some (('''', index s < int (length (keys s))), s))"

text \<open>\<^verbatim>\<open>func (s *keysIter) Close() error\<close>: drops the slice, reports \<^verbatim>\<open>s.ctx.Err()\<close>.\<close>

definition Close :: "keysIter \<Rightarrow> error option \<times> keysIter" where
  "Close s = (Err (ctx s), s\<lparr>keys := []\<rparr>)"

text \<open>
  A caller's use of an iterator: a sequence of \<^verbatim>\<open>Next()\<close> and \<^verbatim>\<open>Close()\<close> calls, whose
  results the caller may ignore. \<open>calls cs s\<close> is the iterator after the calls \<open>cs\<close>, or
  \<open>None\<close> if one of them panics.
\<close>

datatype iter_call = CallNext | CallClose

fun calls :: "iter_call list \<Rightarrow> keysIter \<Rightarrow> keysIter option" where
  "calls [] s = Some s"
| "calls (CallNext # cs) s = (case Next s of None \<Rightarrow> None | Some (r, s') \<Rightarrow> calls cs s')"
| "calls (CallClose # cs) s = calls cs (snd (Close s))"

text \<open>
  \<open>Next_times n s\<close>: the pairs that \<open>n\<close> successive \<^verbatim>\<open>Next()\<close> calls return, in order,
  with the iterator left behind; \<open>None\<close> if a call panics.
\<close>

fun Next_times :: "nat \<Rightarrow> keysIter \<Rightarrow> ((string \<times> bool) list \<times> keysIter) option" where
  "Next_times 0 s = Some ([], s)"
| "Next_times (Suc n) s =
     (case Next s of
        None \<Rightarrow> None
      | Some (r, s') \<Rightarrow>
          (case Next_times n s' of
             None \<Rightarrow> None
           | Some (rs, s'') \<Rightarrow> Some (r # rs, s'')))"

text \<open>\<^verbatim>\<open>func (s *Store) List(ctx) (kv.Iter[string], error)\<close> of package \<^verbatim>\<open>credhub\<close>.\<close>

definition List ::
  "json \<Rightarrow> 'w Store \<Rightarrow> Context \<Rightarrow> 'w world \<Rightarrow> (error + keysIter) \<times> 'w world" where
  "List J s c \<sigma> =
     (let pathPrefix = Namespace (config s) @ ''/'';
          uri = ''/api/v1/data?path='' @ pathPrefix
      in case DoRequest s c ''GET'' uri None \<sigma> of
           (resp, \<sigma>') \<Rightarrow>
             (case err resp of
                Some e \<Rightarrow> (Inl e, \<sigma>')
              | None \<Rightarrow>
                  if \<not> IsStatusCode2xx resp
                  then (Inl (ErrorString (''failed to list entries (status: '' @ Status resp
                               @ '', response: '' @ Body resp @ '')'')), \<sigma>')
                  else (case DecodeCredentials J (Body resp) of
                          Inl e \<Rightarrow> (Inl e, \<sigma>')
                        | Inr credentials \<Rightarrow>
                            (Inr \<lparr>keys = map (\<lambda>name. strings_TrimPrefix name pathPrefix)
                                             credentials,
                                  index = 0, ctx = c\<rparr>, \<sigma>'))))"

section \<open>The static-list store\<close>

text \<open>
  \<^verbatim>\<open>type Config struct { Entries map[string]string }\<close> of package \<^verbatim>\<open>staticlist\<close>. The
  entries are an association list: a lookup is \<open>map_of\<close>, and the order of the list
  stands for the order in which Go's \<^verbatim>\<open>range\<close> happens to visit the map, which the
  language leaves open. Nothing below depends on that order.
\<close>

record StaticConfig =
  Entries :: "(string \<times> string) list"

text \<open>\<^verbatim>\<open>func (s *Store) Create(_, name, _) error\<close> of package \<^verbatim>\<open>staticlist\<close>.\<close>

definition static_Create :: "StaticConfig \<Rightarrow> string \<Rightarrow> byte list \<Rightarrow> error option" where
  "static_Create cfg name val =
     (case map_of (Entries cfg) name of
        Some v \<Rightarrow> Some (WrapError (''key '' @ [CHR 0x27] @ name @ [CHR 0x27] @ '' already exists: '')
                          ErrKeyExists)
      | None \<Rightarrow> Some (WrapError (''key '' @ [CHR 0x27] @ name @ [CHR 0x27]
                          @ '' doesn'' @ [CHR 0x27]
                          @ ''t exist, create operation is not allowed on static list: '')
                        ErrNotAllowed))"

text \<open>\<^verbatim>\<open>func (s *Store) Set(_, name, _) error\<close> of package \<^verbatim>\<open>staticlist\<close>.\<close>

definition static_Set :: "StaticConfig \<Rightarrow> string \<Rightarrow> byte list \<Rightarrow> error option" where
  "static_Set cfg name val =
     Some (WrapError (''set key '' @ [CHR 0x27] @ name @ [CHR 0x27]
             @ '' value operation is not allowed on static list: '')
           ErrNotAllowed)"

text \<open>\<^verbatim>\<open>func (s *Store) Get(_, name) ([]byte, error)\<close> of package \<^verbatim>\<open>staticlist\<close>.\<close>

definition static_Get :: "StaticConfig \<Rightarrow> string \<Rightarrow> error + byte list" where
  "static_Get cfg name =
     (case map_of (Entries cfg) name of
        None \<Rightarrow> Inl ErrKeyNotFound
      | Some v \<Rightarrow> Inr (bytes_of_string v))"

text \<open>\<^verbatim>\<open>func (s *Store) Delete(_, name) error\<close> of package \<^verbatim>\<open>staticlist\<close>.\<close>

definition static_Delete :: "StaticConfig \<Rightarrow> string \<Rightarrow> error option" where
  "static_Delete cfg name =
     (case map_of (Entries cfg) name of
        None \<Rightarrow> Some (WrapError (''key '' @ [CHR 0x27] @ name @ [CHR 0x27] @ '' doesn''
                          @ [CHR 0x27] @ ''t exist: '')
                        ErrKeyNotFound)
      | Some v \<Rightarrow> Some (WrapError (''key '' @ [CHR 0x27] @ name @ [CHR 0x27]
                          @ '' exists, but delete operation is not allowed on static list: '')
                        ErrNotAllowed))"

text \<open>\<^verbatim>\<open>func (s *Store) List(ctx) (kv.Iter[string], error)\<close> of package \<^verbatim>\<open>staticlist\<close>.\<close>

definition static_List :: "StaticConfig \<Rightarrow> Context \<Rightarrow> error + keysIter" where
  "static_List cfg c = Inr \<lparr>keys = map fst (Entries cfg), index = 0, ctx = c\<rparr>"

text \<open>
  \<^verbatim>\<open>assertErrorIs(t, err, target)\<close> of the tests of package \<^verbatim>\<open>staticlist\<close>: the call passes
  when \<^verbatim>\<open>err\<close> is not \<^verbatim>\<open>nil\<close> and \<^verbatim>\<open>errors.Is(err, target)\<close>.
\<close>

definition assertErrorIs :: "error option \<Rightarrow> error \<Rightarrow> bool" where
  "assertErrorIs r target = (case r of None \<Rightarrow> False | Some e \<Rightarrow> errors_Is e target)"

section \<open>The fake client of the tests\<close>

text \<open>
  \<^verbatim>\<open>type FakeHttpClient struct\<close> and its \<^verbatim>\<open>DoRequest\<close>, from the contract tests of package
  \<^verbatim>\<open>credhub\<close>: it records the request and answers with the status code set for the
  method (0 if none is set), the status text, the body and the error it was given.
\<close>

record FakeHttpClient =
  reqMethod :: string
  reqUri :: string
  reqBody :: string
  respStatusCodes :: "(string \<times> int) list"
  respStatus :: string
  respBody :: string
  fakeError :: "error option"

definition Fake_DoRequest ::
  "Context \<Rightarrow> string \<Rightarrow> string \<Rightarrow> string option \<Rightarrow> FakeHttpClient
     \<Rightarrow> HttpResponse \<times> FakeHttpClient" where
  "Fake_DoRequest c method url body fc =
     (\<lparr>StatusCode = (case map_of (respStatusCodes fc) method of None \<Rightarrow> 0 | Some n \<Rightarrow> n),
       Status = respStatus fc, Body = respBody fc, err = fakeError fc\<rparr>,
      fc\<lparr>reqMethod := method, reqUri := url,
         reqBody := (case body of None \<Rightarrow> [] | Some b \<Rightarrow> b)\<rparr>)"

text \<open>\<^verbatim>\<open>const testNamespace\<close> and \<^verbatim>\<open>NewFakeStore()\<close> of the same tests.\<close>

definition testNamespace :: string where
  "testNamespace = ''/test-namespace''"

definition fakeStore :: "FakeHttpClient Store" where
  "fakeStore =
     \<lparr>config = \<lparr>BaseUrl = [], EnableMutualTls = False, ClientCertFilePath = [],
                 ClientKeyFilePath = [], ServerCaCertFilePath = [],
                 ServerInsecureSkipVerify = False, Namespace = testNamespace,
                 ForceBase64ValuesEncoding = False\<rparr>,
      client = Fake_DoRequest\<rparr>"

definition fakeClient :: "(string \<times> int) list \<Rightarrow> string \<Rightarrow> FakeHttpClient" where
  "fakeClient codes body =
     \<lparr>reqMethod = [], reqUri = [], reqBody = [], respStatusCodes = codes,
      respStatus = [], respBody = body, fakeError = None\<rparr>"

text \<open>
  The response bodies the tests use, and a JSON library that knows just these: it
  decodes each of them as Go's decoder does and refuses every other text.
\<close>

definition noDataBody :: string where
  \<open>noDataBody = ''{"data":[]}''\<close>

definition existsRespBody :: string where
  \<open>existsRespBody = ''{"data":[{"value":"something"}]}''\<close>

definition twoVersionsBody :: string where
  \<open>twoVersionsBody = ''{"data":[{"value":"something"},{"value":"other"}]}''\<close>

definition noCredentialsBody :: string where
  \<open>noCredentialsBody = ''{"credentials":[]}''\<close>

definition twoCredentialsBody :: string where
  \<open>twoCredentialsBody =
     ''{"credentials":[{"name":"/test-namespace/key-1"},{"name":"/test-namespace/key-2"}]}''\<close>

definition quoted :: "string \<Rightarrow> string" where
  "quoted s = [CHR 0x22] @ s @ [CHR 0x22]"

fun members :: "(string \<times> string) list \<Rightarrow> string" where
  "members [] = []"
| "members [(k, v)] = quoted k @ '':'' @ quoted v"
| "members ((k, v) # kvs) = quoted k @ '':'' @ quoted v @ '','' @ members kvs"

definition testJson :: json where
  "testJson =
     \<lparr>Marshal = (\<lambda>kvs. Inr (''{'' @ members kvs @ ''}'')),
      DecodeData = (\<lambda>body.
        if body = noDataBody then Inr []
        else if body = existsRespBody then Inr [''something'']
        else if body = twoVersionsBody then Inr [''something'', ''other'']
        else Inl (ErrorString ''invalid character'')),
      DecodeCredentials = (\<lambda>body.
        if body = noCredentialsBody then Inr []
        else if body = twoCredentialsBody
        then Inr [''/test-namespace/key-1'', ''/test-namespace/key-2'']
        else Inl (ErrorString ''invalid character''))\<rparr>"

text \<open>\<^verbatim>\<open>NewFakeStore()\<close> of the tests of package \<^verbatim>\<open>staticlist\<close>.\<close>

definition staticFakeStore :: StaticConfig where
  "staticFakeStore = \<lparr>Entries = [(''key1'', ''value1''), (''key2'', ''value2'')]\<rparr>"

text \<open>\<^verbatim>\<open>context.Background()\<close>: a context that is never cancelled.\<close>

definition Background :: Context where
  "Background = \<lparr>Err = None\<rparr>"

section \<open>Properties of the value codec\<close>

lemma unat_byte_less: "unat (b::byte) < 256"
  using unsigned_less [of b, where 'a=nat] by simp

lemma bytes_of_string_of_bytes: "bytes_of_string (string_of_bytes bs) = bs"
  unfolding bytes_of_string_def string_of_bytes_def
  by (induction bs) (simp_all add: unat_byte_less)

lemma byte_of_nat_eqI: "x mod 256 = unat b \<Longrightarrow> of_nat x = (b::byte)"
proof -
  assume h: "x mod 256 = unat b"
  have "(of_nat x :: byte) = of_nat (x mod 256)"
    by (simp add: word_of_nat_eq_iff take_bit_eq_mod)
  also have "\<dots> = b" using h by simp
  finally show ?thesis .
qed

text \<open>A number below \<open>2^24\<close> is the sum of its four base-64 digits.\<close>

lemma sextets:
  fixes n :: nat
  assumes "n < 16777216"
  shows "n div 262144 mod 64 * 262144 + n div 4096 mod 64 * 4096 + n div 64 mod 64 * 64
           + n mod 64 = n"
proof -
  define q1 where "q1 = n div 64"
  define q2 where "q2 = q1 div 64"
  define q3 where "q3 = q2 div 64"
  have d2: "n div 4096 = q2" unfolding q2_def q1_def by (simp add: div_mult2_eq)
  have d3: "n div 262144 = q3" unfolding q3_def q2_def q1_def by (simp add: div_mult2_eq)
  have "q3 < 64" using assms unfolding d3 [symmetric] by simp
  then have m3: "q3 mod 64 = q3" by simp
  have e1: "n = 64 * q1 + n mod 64" unfolding q1_def by simp
  have e2: "q1 = 64 * q2 + q1 mod 64" unfolding q2_def by simp
  have e3: "q2 = 64 * q3 + q2 mod 64" unfolding q3_def by simp
  have "q3 * 262144 + (q2 mod 64) * 4096 + (q1 mod 64) * 64 + n mod 64 = n"
    using e1 e2 e3 by linarith
  then show ?thesis using d2 d3 m3 q1_def by simp
qed

text \<open>Three bytes are read back from the 24-bit group they make.\<close>

lemma octets:
  fixes a b c :: nat
  assumes "a < 256" "b < 256" "c < 256"
  shows "(a * 65536 + b * 256 + c) div 65536 mod 256 = a"
    and "(a * 65536 + b * 256 + c) div 256 mod 256 = b"
    and "(a * 65536 + b * 256 + c) mod 256 = c"
proof -
  define k where "k = a * 256 + b"
  have r: "a * 65536 + b * 256 + c = k * 256 + c" by (simp add: k_def)
  have m: "(k * 256 + c) mod 256 = c" "(k * 256 + c) div 256 = k"
    using assms(3) by simp_all
  show "(a * 65536 + b * 256 + c) div 65536 mod 256 = a"
    using assms by simp
  show "(a * 65536 + b * 256 + c) mod 256 = c"
    unfolding r by (rule m(1))
  have "(a * 65536 + b * 256 + c) div 256 = k"
    unfolding r by (rule m(2))
  then show "(a * 65536 + b * 256 + c) div 256 mod 256 = b"
    using assms(2) by (simp add: k_def)
qed

lemma octets2:
  fixes a b :: nat
  assumes "a < 256" "b < 256"
  shows "(a * 65536 + b * 256) div 65536 mod 256 = a
           \<and> (a * 65536 + b * 256) div 256 mod 256 = b"
  using octets(1,2) [OF assms, of 0] by simp

lemma low_bits_two: "(a * 65536 + b * 256) mod 64 = (0::nat)"
proof -
  have e: "a * 65536 + b * 256 = (a * 1024 + b * 4) * 64" by simp
  show ?thesis unfolding e by (rule mod_mult_self2_is_0)
qed

lemma low_bits_one: "(a * 65536) mod 64 = (0::nat)"
  using low_bits_two [of a 0] by simp

lemma mid_bits_one: "(a * 65536) div 64 mod 64 = (0::nat)"
proof -
  have e: "a * 65536 = (a * 1024) * 64" by simp
  have "a * 65536 div 64 = a * 1024" unfolding e by simp
  moreover have "a * 1024 = (a * 16) * 64" by simp
  ultimately have "a * 65536 div 64 = (a * 16) * 64" by simp
  then show ?thesis by simp
qed

lemma length_encodeStd: "length encodeStd = 64"
  by (simp add: encodeStd_def)

lemma distinct_encodeStd: "distinct encodeStd"
  by (simp add: encodeStd_def)

lemma decodeMap_encodeStd: "i < 64 \<Longrightarrow> decodeMap (encodeStd ! i) = Some i"
  unfolding decodeMap_def
  using map_of_zip_nth [of encodeStd "[0..<64]" i] length_encodeStd distinct_encodeStd
  by simp

lemma pad_notin_encodeStd: "CHR ''='' \<notin> set encodeStd"
  by (simp add: encodeStd_def)

lemma decodeMap_pad: "decodeMap (CHR ''='') = None"
  unfolding decodeMap_def
  using map_of_zip_is_None [of encodeStd "[0..<64]" "CHR ''=''"]
    length_encodeStd pad_notin_encodeStd
  by simp

lemma encodeStd_no_newline: "c \<in> set encodeStd \<Longrightarrow> \<not> newline c"
  by (auto simp: encodeStd_def newline_def)

lemma encodeStd_nth_no_newline: "i < 64 \<Longrightarrow> \<not> newline (encodeStd ! i)"
  using encodeStd_no_newline [of "encodeStd ! i"] length_encodeStd by simp

lemma pad_no_newline: "\<not> newline (CHR ''='')"
  by (simp add: newline_def)

lemma EncodeToString_no_newline: "c \<in> set (EncodeToString bs) \<Longrightarrow> \<not> newline c"
proof (induction bs arbitrary: c rule: EncodeToString.induct)
  case 1
  then show ?case by simp
next
  case (2 b0)
  then show ?case
    by (auto simp: Let_def encodeStd_nth_no_newline pad_no_newline)
next
  case (3 b0 b1)
  then show ?case
    by (auto simp: Let_def encodeStd_nth_no_newline pad_no_newline)
next
  case (4 b0 b1 b2 bs)
  then show ?case
    by (auto simp: Let_def encodeStd_nth_no_newline)
qed

lemma decodeQuanta_EncodeToString: "decodeQuanta (EncodeToString bs) = Inr bs"
proof (induction bs rule: EncodeToString.induct)
  case 1
  then show ?case by simp
next
  case (2 b0)
  define n where "n = unat b0 * 65536"
  have lt: "n < 16777216" using unat_byte_less [of b0] by (simp add: n_def)
  have enc: "EncodeToString [b0] =
      [encodeStd ! (n div 262144 mod 64), encodeStd ! (n div 4096 mod 64), CHR ''='', CHR ''='']"
    by (simp add: n_def Let_def)
  have z: "n div 64 mod 64 = 0" "n mod 64 = 0"
    unfolding n_def by (rule mid_bits_one, rule low_bits_one)
  have asm: "n div 262144 mod 64 * 262144 + n div 4096 mod 64 * 4096 = n"
    using sextets [OF lt] by (simp only: z mult_zero_left add_0_right)
  have b: "of_nat (n div 65536) = b0"
    by (rule byte_of_nat_eqI) (simp add: n_def unat_byte_less)
  show ?case unfolding enc
    by (simp add: decodeMap_encodeStd decodeMap_pad asm b)
next
  case (3 b0 b1)
  define n where "n = unat b0 * 65536 + unat b1 * 256"
  have lt: "n < 16777216"
    using unat_byte_less [of b0] unat_byte_less [of b1] by (simp add: n_def)
  have enc: "EncodeToString [b0, b1] =
      [encodeStd ! (n div 262144 mod 64), encodeStd ! (n div 4096 mod 64),
       encodeStd ! (n div 64 mod 64), CHR ''='']"
    by (simp add: n_def Let_def)
  have z: "n mod 64 = 0"
    unfolding n_def by (rule low_bits_two)
  have asm: "n div 262144 mod 64 * 262144 + n div 4096 mod 64 * 4096 + n div 64 mod 64 * 64 = n"
    using sextets [OF lt] by (simp only: z mult_zero_left add_0_right)
  have o: "n div 65536 mod 256 = unat b0" "n div 256 mod 256 = unat b1"
    unfolding n_def using octets2 [OF unat_byte_less unat_byte_less] by blast+
  have b: "of_nat (n div 65536) = b0" "of_nat (n div 256) = b1"
    by (rule byte_of_nat_eqI, rule o)+
  show ?case unfolding enc
    by (simp add: decodeMap_encodeStd decodeMap_pad asm b)
next
  case (4 b0 b1 b2 bs)
  define n where "n = unat b0 * 65536 + unat b1 * 256 + unat b2"
  have lt: "n < 16777216"
    using unat_byte_less [of b0] unat_byte_less [of b1] unat_byte_less [of b2]
    by (simp add: n_def)
  have enc: "EncodeToString (b0 # b1 # b2 # bs) =
      encodeStd ! (n div 262144 mod 64) # encodeStd ! (n div 4096 mod 64) #
      encodeStd ! (n div 64 mod 64) # encodeStd ! (n mod 64) # EncodeToString bs"
    by (simp add: n_def Let_def)
  have asm: "n div 262144 mod 64 * 262144 + n div 4096 mod 64 * 4096 + n div 64 mod 64 * 64
               + n mod 64 = n"
    by (rule sextets [OF lt])
  have o: "n div 65536 mod 256 = unat b0" "n div 256 mod 256 = unat b1" "n mod 256 = unat b2"
    unfolding n_def by (rule octets [OF unat_byte_less unat_byte_less unat_byte_less])+
  have b: "of_nat (n div 65536) = b0" "of_nat (n div 256) = b1" "of_nat n = b2"
    by (rule byte_of_nat_eqI, rule o)+
  show ?case unfolding enc
    by (simp add: decodeMap_encodeStd asm b "4.IH")
qed

lemma DecodeString_EncodeToString: "DecodeString (EncodeToString bs) = Inr bs"
proof -
  have "filter (\<lambda>c. \<not> newline c) (EncodeToString bs) = EncodeToString bs"
    using EncodeToString_no_newline [of _ bs] by (auto simp: filter_id_conv)
  then show ?thesis by (simp add: DecodeString_def decodeQuanta_EncodeToString)
qed

lemma JsonStringToBytes_prefixed:
  "JsonStringToBytes (''Base64:'' @ EncodeToString v) = Inr v"
  by (simp add: JsonStringToBytes_def strings_TrimPrefix_def DecodeString_EncodeToString)

lemma JsonStringToBytes_raw:
  "\<not> prefix ''Base64:'' (string_of_bytes v) \<Longrightarrow> JsonStringToBytes (string_of_bytes v) = Inr v"
  by (simp add: JsonStringToBytes_def bytes_of_string_of_bytes)

lemma BytesToJsonString_cases:
  "(f \<or> \<not> utf8_Valid v \<or> prefix ''Base64:'' (string_of_bytes v)
      \<longrightarrow> BytesToJsonString v f = ''Base64:'' @ EncodeToString v)
   \<and> (\<not> (f \<or> \<not> utf8_Valid v \<or> prefix ''Base64:'' (string_of_bytes v))
      \<longrightarrow> BytesToJsonString v f = string_of_bytes v)"
  unfolding BytesToJsonString_def by (rule conjI; rule impI; simp only: if_True if_False)

lemma JsonStringToBytes_BytesToJsonString:
  "JsonStringToBytes (BytesToJsonString v f) = Inr v"
proof (cases "f \<or> \<not> utf8_Valid v \<or> prefix ''Base64:'' (string_of_bytes v)")
  case True
  then have "BytesToJsonString v f = ''Base64:'' @ EncodeToString v"
    using BytesToJsonString_cases [of f v] by blast
  then show ?thesis by (simp only: JsonStringToBytes_prefixed)
next
  case False
  then have "BytesToJsonString v f = string_of_bytes v"
    and "\<not> prefix ''Base64:'' (string_of_bytes v)"
    using BytesToJsonString_cases [of f v] by blast+
  then show ?thesis using JsonStringToBytes_raw [of v] by simp
qed

text \<open>
  C3. Decoding what the codec encoded gives the bytes back, whether base64 is forced or
  not: \<open>decode (encode v False) = v\<close> and \<open>decode (encode v True) = v\<close>, for every byte
  sequence \<open>v\<close>.
\<close>

theorem codec_round_trip:
  "JsonStringToBytes (BytesToJsonString v False) = Inr v
   \<and> JsonStringToBytes (BytesToJsonString v True) = Inr v"
  by (simp only: JsonStringToBytes_BytesToJsonString simp_thms)

theorem codec_round_trip_witness:
  "JsonStringToBytes (BytesToJsonString [0x42, 0xFF] False) = Inr [0x42, 0xFF]
   \<and> JsonStringToBytes (BytesToJsonString [0x42, 0xFF] True) = Inr [0x42, 0xFF]"
  by (rule codec_round_trip)

text \<open>The values that \<^verbatim>\<open>TestStore_put\<close> writes, and what the parts of the codec make of them.\<close>

lemma string_value_valid: "utf8_Valid (bytes_of_string ''string-value'')"
  by code_simp

lemma string_value_no_marker:
  "\<not> prefix ''Base64:'' (string_of_bytes (bytes_of_string ''string-value''))"
  by code_simp

lemma string_value_text:
  "string_of_bytes (bytes_of_string ''string-value'') = ''string-value''"
  by code_simp

lemma string_value_base64:
  "EncodeToString (bytes_of_string ''string-value'') = ''c3RyaW5nLXZhbHVl''"
  by (simp add: Let_def encodeStd_def bytes_of_string_def)

lemma binary_value_invalid:
  "\<not> utf8_Valid [0, 1, 2, 3, 4, 5, 6, 7, 8, 9, 10, 80, 114, 122, 255, 121, 107, 108, 255]"
  by code_simp

lemma binary_value_base64:
  "EncodeToString [0, 1, 2, 3, 4, 5, 6, 7, 8, 9, 10, 80, 114, 122, 255, 121, 107, 108, 255]
     = ''AAECAwQFBgcICQpQcnr/eWts/w==''"
  by (simp add: Let_def encodeStd_def)

lemma marker_value_collides:
  "prefix ''Base64:'' (string_of_bytes (bytes_of_string ''Base64:string-value''))"
  by code_simp

lemma marker_value_base64:
  "EncodeToString (bytes_of_string ''Base64:string-value'') = ''QmFzZTY0OnN0cmluZy12YWx1ZQ==''"
  by (simp add: Let_def encodeStd_def bytes_of_string_def)

text \<open>
  C4. The codec writes the base64 form behind the prefix \<^verbatim>\<open>Base64:\<close> exactly when base64
  is forced, or the bytes are not valid UTF-8, or their text starts with \<^verbatim>\<open>Base64:\<close>
  itself; in every other case it writes the text of the bytes as it is, and that text
  does not start with the prefix.
\<close>

theorem BytesToJsonString_policy:
  "(f \<or> \<not> utf8_Valid v \<or> prefix ''Base64:'' (string_of_bytes v)
      \<longrightarrow> BytesToJsonString v f = ''Base64:'' @ EncodeToString v
          \<and> prefix ''Base64:'' (BytesToJsonString v f))
   \<and> (\<not> (f \<or> \<not> utf8_Valid v \<or> prefix ''Base64:'' (string_of_bytes v))
      \<longrightarrow> BytesToJsonString v f = string_of_bytes v
          \<and> \<not> prefix ''Base64:'' (BytesToJsonString v f))"
proof (cases "f \<or> \<not> utf8_Valid v \<or> prefix ''Base64:'' (string_of_bytes v)")
  case True
  then have "BytesToJsonString v f = ''Base64:'' @ EncodeToString v"
    using BytesToJsonString_cases [of f v] by blast
  with True show ?thesis by simp
next
  case False
  then have "BytesToJsonString v f = string_of_bytes v"
    using BytesToJsonString_cases [of f v] by blast
  with False show ?thesis by simp
qed

theorem BytesToJsonString_policy_witness:
  "BytesToJsonString (bytes_of_string ''string-value'') False = ''string-value''
   \<and> BytesToJsonString (bytes_of_string ''string-value'') True = ''Base64:c3RyaW5nLXZhbHVl''
   \<and> BytesToJsonString [0, 1, 2, 3, 4, 5, 6, 7, 8, 9, 10, 80, 114, 122, 255, 121, 107, 108, 255]
        False = ''Base64:AAECAwQFBgcICQpQcnr/eWts/w==''
   \<and> BytesToJsonString (bytes_of_string ''Base64:string-value'') False
        = ''Base64:QmFzZTY0OnN0cmluZy12YWx1ZQ==''"
proof -
  have "BytesToJsonString (bytes_of_string ''string-value'') False = ''string-value''"
    using BytesToJsonString_policy [of False "bytes_of_string ''string-value''"]
      string_value_valid string_value_no_marker string_value_text
    by simp
  moreover
  have "BytesToJsonString (bytes_of_string ''string-value'') True = ''Base64:c3RyaW5nLXZhbHVl''"
    using BytesToJsonString_policy [of True "bytes_of_string ''string-value''"]
      string_value_base64
    by simp
  moreover
  have "BytesToJsonString
          [0, 1, 2, 3, 4, 5, 6, 7, 8, 9, 10, 80, 114, 122, 255, 121, 107, 108, 255] False
          = ''Base64:AAECAwQFBgcICQpQcnr/eWts/w==''"
    using BytesToJsonString_policy
        [of False "[0, 1, 2, 3, 4, 5, 6, 7, 8, 9, 10, 80, 114, 122, 255, 121, 107, 108, 255]"]
      binary_value_invalid binary_value_base64
    by simp
  moreover
  have "BytesToJsonString (bytes_of_string ''Base64:string-value'') False
          = ''Base64:QmFzZTY0OnN0cmluZy12YWx1ZQ==''"
    using BytesToJsonString_policy [of False "bytes_of_string ''Base64:string-value''"]
      marker_value_collides marker_value_base64
    by simp
  ultimately show ?thesis by blast
qed

section \<open>Properties of the remote store\<close>

lemma DoRequest_eq:
  "client s c method uri body w = (resp, w')
     \<Longrightarrow> DoRequest s c method uri body (tr, w) = (resp, (tr @ [Request method uri body], w'))"
  by (simp add: DoRequest_def)

lemma not_2xx_404: "StatusCode resp = 404 \<Longrightarrow> \<not> IsStatusCode2xx resp"
  by (simp add: IsStatusCode2xx_def)

lemma Get_404:
  assumes "client s c ''GET''
             (''/api/v1/data?current=true&name='' @ Namespace (config s) @ ''/'' @ name) None w
           = (resp, w')"
    and "err resp = None" and "StatusCode resp = 404"
  shows "Get J s c name (tr, w) =
           (Inl ErrNotExists,
            (tr @ [Request ''GET''
                     (''/api/v1/data?current=true&name='' @ Namespace (config s) @ ''/'' @ name)
                     None], w'))"
  unfolding Get_def Let_def DoRequest_eq [OF assms(1)] using assms(2,3) by simp

lemma Get_not_2xx:
  assumes "client s c ''GET''
             (''/api/v1/data?current=true&name='' @ Namespace (config s) @ ''/'' @ name) None w
           = (resp, w')"
    and "err resp = None" and "StatusCode resp \<noteq> 404" and "\<not> IsStatusCode2xx resp"
  shows "Get J s c name (tr, w) =
           (Inl (ErrorString (''failed to get entry (status: '' @ Status resp
                   @ '', response: '' @ Body resp @ '')'')),
            (tr @ [Request ''GET''
                     (''/api/v1/data?current=true&name='' @ Namespace (config s) @ ''/'' @ name)
                     None], w'))"
  unfolding Get_def Let_def DoRequest_eq [OF assms(1)] using assms(2,3,4) by simp

lemma Get_2xx:
  assumes "client s c ''GET''
             (''/api/v1/data?current=true&name='' @ Namespace (config s) @ ''/'' @ name) None w
           = (resp, w')"
    and "err resp = None" and "IsStatusCode2xx resp"
    and "DecodeData J (Body resp) = Inr responseData"
  shows "Get J s c name (tr, w) =
           ((case responseData of
               [] \<Rightarrow> Inl ErrNotExists
             | [v] \<Rightarrow> JsonStringToBytes v
             | v # v' # vs \<Rightarrow>
                 Inl (ErrorString (''received multiple entries ('' @ itoa (length responseData)
                        @ '') for the same key''))),
            (tr @ [Request ''GET''
                     (''/api/v1/data?current=true&name='' @ Namespace (config s) @ ''/'' @ name)
                     None], w'))"
proof -
  have n: "StatusCode resp \<noteq> 404" using assms(3) not_2xx_404 by blast
  show ?thesis
    unfolding Get_def Let_def DoRequest_eq [OF assms(1)] using assms(2,3,4) n
    by (simp split: list.splits)
qed

text \<open>
  C1. A \<^verbatim>\<open>Get\<close> whose request was answered (no transport error): status 404 gives the
  not-found error; any other status outside 2xx gives the generic error that carries the
  status text and the raw body; a 2xx status with a body that parses gives the not-found
  error for no version, the decoded value of the entry for exactly one, and an error
  (never a value) for more than one. In every case exactly the one lookup request is
  sent.
\<close>

theorem Get_by_response:
  assumes "client s c ''GET''
             (''/api/v1/data?current=true&name='' @ Namespace (config s) @ ''/'' @ name) None w
           = (resp, w')"
    and "err resp = None"
  shows "snd (Get J s c name (tr, w)) =
           (tr @ [Request ''GET''
                    (''/api/v1/data?current=true&name='' @ Namespace (config s) @ ''/'' @ name)
                    None], w')
         \<and> (StatusCode resp = 404 \<longrightarrow> fst (Get J s c name (tr, w)) = Inl ErrNotExists)
         \<and> (StatusCode resp \<noteq> 404 \<and> \<not> IsStatusCode2xx resp \<longrightarrow>
              fst (Get J s c name (tr, w)) =
                Inl (ErrorString (''failed to get entry (status: '' @ Status resp
                       @ '', response: '' @ Body resp @ '')'')))
         \<and> (IsStatusCode2xx resp \<longrightarrow>
              (DecodeData J (Body resp) = Inr [] \<longrightarrow>
                 fst (Get J s c name (tr, w)) = Inl ErrNotExists)
              \<and> (\<forall>v. DecodeData J (Body resp) = Inr [v] \<longrightarrow>
                    fst (Get J s c name (tr, w)) = JsonStringToBytes v)
              \<and> (\<forall>vs. DecodeData J (Body resp) = Inr vs \<and> 1 < length vs \<longrightarrow>
                    fst (Get J s c name (tr, w)) =
                      Inl (ErrorString (''received multiple entries ('' @ itoa (length vs)
                             @ '') for the same key''))))"
proof (cases "StatusCode resp = 404")
  case True
  show ?thesis
    using Get_404 [OF assms True, of J tr] True not_2xx_404 [OF True] by simp
next
  case n404: False
  show ?thesis
  proof (cases "IsStatusCode2xx resp")
    case False
    show ?thesis
      using Get_not_2xx [OF assms n404 False, of J tr] n404 False by simp
  next
    case True
    show ?thesis
    proof (cases "DecodeData J (Body resp)")
      case (Inl e)
      have "snd (Get J s c name (tr, w)) =
              (tr @ [Request ''GET''
                       (''/api/v1/data?current=true&name='' @ Namespace (config s) @ ''/'' @ name)
                       None], w')"
        unfolding Get_def Let_def DoRequest_eq [OF assms(1)] using assms(2) n404 True Inl
        by simp
      with n404 True Inl show ?thesis by simp
    next
      case (Inr vs)
      show ?thesis
        using Get_2xx [OF assms True Inr, of tr] n404 True Inr
        by (cases vs; cases "tl vs") auto
    qed
  qed
qed

text \<open>What the fake client answers, and what the JSON library of the tests decodes.\<close>

lemma fake_request:
  "client fakeStore c method uri body (fakeClient codes rb) =
     (\<lparr>StatusCode = (case map_of codes method of None \<Rightarrow> 0 | Some n \<Rightarrow> n),
       Status = [], Body = rb, err = None\<rparr>,
      (fakeClient codes rb)\<lparr>reqMethod := method, reqUri := uri,
         reqBody := (case body of None \<Rightarrow> [] | Some b \<Rightarrow> b)\<rparr>)"
  by (simp add: fakeStore_def Fake_DoRequest_def fakeClient_def)

lemma fake_Namespace: "Namespace (config fakeStore) = ''/test-namespace''"
  by (simp add: fakeStore_def testNamespace_def)

lemma testJson_data:
  "DecodeData testJson noDataBody = Inr []"
  "DecodeData testJson existsRespBody = Inr [''something'']"
  "DecodeData testJson twoVersionsBody = Inr [''something'', ''other'']"
  by (simp_all add: testJson_def noDataBody_def existsRespBody_def twoVersionsBody_def)

lemma something_decoded: "JsonStringToBytes ''something'' = Inr (bytes_of_string ''something'')"
  by (simp add: JsonStringToBytes_def)

lemma itoa_two: "itoa (Suc (Suc 0)) = ''2''"
  by (simp add: itoa.simps)

theorem Get_by_response_witness:
  "fst (Get testJson fakeStore Background ''key'' ([], fakeClient [(''GET'', 404)] [])) = Inl ErrNotExists
   \<and> fst (Get testJson fakeStore Background ''key'' ([], fakeClient [(''GET'', 500)] ''boom''))
       = Inl (ErrorString ''failed to get entry (status: , response: boom)'')
   \<and> fst (Get testJson fakeStore Background ''key'' ([], fakeClient [(''GET'', 200)] noDataBody))
       = Inl ErrNotExists
   \<and> fst (Get testJson fakeStore Background ''key'' ([], fakeClient [(''GET'', 200)] existsRespBody))
       = Inr (bytes_of_string ''something'')
   \<and> fst (Get testJson fakeStore Background ''key'' ([], fakeClient [(''GET'', 200)] twoVersionsBody))
       = Inl (ErrorString ''received multiple entries (2) for the same key'')
   \<and> fst (snd (Get testJson fakeStore Background ''key'' ([], fakeClient [(''GET'', 200)] existsRespBody)))
       = [Request ''GET'' ''/api/v1/data?current=true&name=/test-namespace/key'' None]"
proof -
  have "fst (Get testJson fakeStore Background ''key'' ([], fakeClient [(''GET'', 404)] [])) = Inl ErrNotExists"
    using Get_by_response [where J = testJson and tr = "[]" and name = "''key''",
        OF fake_request [where codes = "[(''GET'', 404)]" and rb = "[]"]] by simp
  moreover
  have "fst (Get testJson fakeStore Background ''key'' ([], fakeClient [(''GET'', 500)] ''boom''))
       = Inl (ErrorString ''failed to get entry (status: , response: boom)'')"
    using Get_by_response [where J = testJson and tr = "[]" and name = "''key''",
        OF fake_request [where codes = "[(''GET'', 500)]" and rb = "''boom''"]] by (simp add: IsStatusCode2xx_def)
  moreover
  have "fst (Get testJson fakeStore Background ''key'' ([], fakeClient [(''GET'', 200)] noDataBody))
       = Inl ErrNotExists"
    using Get_by_response [where J = testJson and tr = "[]" and name = "''key''",
        OF fake_request [where codes = "[(''GET'', 200)]" and rb = "noDataBody"]] by (simp add: IsStatusCode2xx_def testJson_data)
  moreover
  have "fst (Get testJson fakeStore Background ''key'' ([], fakeClient [(''GET'', 200)] existsRespBody))
       = Inr (bytes_of_string ''something'')"
    using Get_by_response [where J = testJson and tr = "[]" and name = "''key''",
        OF fake_request [where codes = "[(''GET'', 200)]" and rb = "existsRespBody"]]
    by (simp add: IsStatusCode2xx_def testJson_data something_decoded)
  moreover
  have "fst (Get testJson fakeStore Background ''key'' ([], fakeClient [(''GET'', 200)] twoVersionsBody))
       = Inl (ErrorString ''received multiple entries (2) for the same key'')"
    using Get_by_response [where J = testJson and tr = "[]" and name = "''key''",
        OF fake_request [where codes = "[(''GET'', 200)]" and rb = "twoVersionsBody"]]
    by (simp add: IsStatusCode2xx_def testJson_data itoa_two)
  moreover
  have "fst (snd (Get testJson fakeStore Background ''key'' ([], fakeClient [(''GET'', 200)] existsRespBody)))
       = [Request ''GET'' ''/api/v1/data?current=true&name=/test-namespace/key'' None]"
    using Get_by_response [where J = testJson and tr = "[]" and name = "''key''",
        OF fake_request [where codes = "[(''GET'', 200)]" and rb = "existsRespBody"]] by (simp add: fake_Namespace)
  ultimately show ?thesis by blast
qed
lemma Delete_cases:
  assumes "client s c ''DELETE''
             (''/api/v1/data?name='' @ Namespace (config s) @ ''/'' @ name) None w = (resp, w')"
    and "err resp = None"
  shows "Delete s c name (tr, w) =
           (if StatusCode resp = 404 then Some ErrNotExists
            else if \<not> IsStatusCode2xx resp
            then Some (ErrorString (''failed to delete entry: '' @ Status resp
                         @ '', response: '' @ Body resp))
            else None,
            (tr @ [Request ''DELETE''
                     (''/api/v1/data?name='' @ Namespace (config s) @ ''/'' @ name) None], w'))"
  unfolding Delete_def Let_def DoRequest_eq [OF assms(1)] using assms(2) by simp

text \<open>
  C6. A \<^verbatim>\<open>Get\<close> and a \<^verbatim>\<open>Delete\<close> whose request was answered with status 404 both return
  the not-found error, which is not a generic error; a \<^verbatim>\<open>Delete\<close> answered with a 2xx
  status succeeds, and one answered with any other status returns the generic error that
  carries the status text and the body.
\<close>

theorem not_found_on_404:
  "(client s c ''GET''
      (''/api/v1/data?current=true&name='' @ Namespace (config s) @ ''/'' @ name) None w
      = (resp, w')
    \<and> err resp = None \<and> StatusCode resp = 404
    \<longrightarrow> fst (Get J s c name (tr, w)) = Inl ErrNotExists
        \<and> (\<forall>msg. fst (Get J s c name (tr, w)) \<noteq> Inl (ErrorString msg)))
   \<and> (client s c ''DELETE''
        (''/api/v1/data?name='' @ Namespace (config s) @ ''/'' @ name) None w = (resp, w')
      \<and> err resp = None
      \<longrightarrow> (StatusCode resp = 404 \<longrightarrow>
             fst (Delete s c name (tr, w)) = Some ErrNotExists
             \<and> (\<forall>msg. fst (Delete s c name (tr, w)) \<noteq> Some (ErrorString msg)))
          \<and> (IsStatusCode2xx resp \<longrightarrow> fst (Delete s c name (tr, w)) = None)
          \<and> (StatusCode resp \<noteq> 404 \<and> \<not> IsStatusCode2xx resp \<longrightarrow>
               fst (Delete s c name (tr, w)) =
                 Some (ErrorString (''failed to delete entry: '' @ Status resp
                         @ '', response: '' @ Body resp))))"
proof (intro conjI impI)
  assume a: "client s c ''GET''
      (''/api/v1/data?current=true&name='' @ Namespace (config s) @ ''/'' @ name) None w
      = (resp, w') \<and> err resp = None \<and> StatusCode resp = 404"
  then have g: "fst (Get J s c name (tr, w)) = Inl ErrNotExists"
    using Get_404 [of s c name w resp w' J tr] by simp
  show "fst (Get J s c name (tr, w)) = Inl ErrNotExists" by (rule g)
  show "\<forall>msg. fst (Get J s c name (tr, w)) \<noteq> Inl (ErrorString msg)"
    unfolding g by simp
next
  assume a: "client s c ''DELETE''
        (''/api/v1/data?name='' @ Namespace (config s) @ ''/'' @ name) None w = (resp, w')
      \<and> err resp = None"
  then have d: "fst (Delete s c name (tr, w)) =
           (if StatusCode resp = 404 then Some ErrNotExists
            else if \<not> IsStatusCode2xx resp
            then Some (ErrorString (''failed to delete entry: '' @ Status resp
                         @ '', response: '' @ Body resp))
            else None)"
    using Delete_cases [of s c name w resp w' tr] by simp
  {
    assume "StatusCode resp = 404"
    then show "fst (Delete s c name (tr, w)) = Some ErrNotExists"
      and "\<forall>msg. fst (Delete s c name (tr, w)) \<noteq> Some (ErrorString msg)"
      unfolding d by simp_all
  }
  {
    assume "IsStatusCode2xx resp"
    then show "fst (Delete s c name (tr, w)) = None"
      unfolding d using not_2xx_404 [of resp] by auto
  }
  {
    assume "StatusCode resp \<noteq> 404 \<and> \<not> IsStatusCode2xx resp"
    then show "fst (Delete s c name (tr, w)) =
                 Some (ErrorString (''failed to delete entry: '' @ Status resp
                         @ '', response: '' @ Body resp))"
      unfolding d by simp
  }
qed

theorem not_found_on_404_witness:
  "fst (Get testJson fakeStore Background ''key'' ([], fakeClient [(''GET'', 404)] []))
     = Inl ErrNotExists
   \<and> fst (Delete fakeStore Background ''element-name''
            ([], fakeClient [(''DELETE'', 404)] [])) = Some ErrNotExists
   \<and> fst (Delete fakeStore Background ''element-name''
            ([], fakeClient [(''DELETE'', 200)] [])) = None
   \<and> fst (Delete fakeStore Background ''element-name''
            ([], fakeClient [(''DELETE'', 500)] ''boom''))
       = Some (ErrorString ''failed to delete entry: , response: boom'')"
proof -
  have "fst (Get testJson fakeStore Background ''key'' ([], fakeClient [(''GET'', 404)] []))
          = Inl ErrNotExists"
    using not_found_on_404 [where J = testJson and tr = "[]" and name = "''key''"
        and s = fakeStore and c = Background and w = "fakeClient [(''GET'', 404)] []"
        and resp = "fst (client fakeStore Background ''GET''
            (''/api/v1/data?current=true&name='' @ Namespace (config fakeStore) @ ''/'' @ ''key'') None
            (fakeClient [(''GET'', 404)] []))"
        and w' = "snd (client fakeStore Background ''GET''
            (''/api/v1/data?current=true&name='' @ Namespace (config fakeStore) @ ''/'' @ ''key'') None
            (fakeClient [(''GET'', 404)] []))"]
    by (simp add: fake_request)
  moreover
  have "fst (Delete fakeStore Background ''element-name''
            ([], fakeClient [(''DELETE'', 404)] [])) = Some ErrNotExists"
    using not_found_on_404 [where tr = "[]" and name = "''element-name''"
        and s = fakeStore and c = Background and w = "fakeClient [(''DELETE'', 404)] []"
        and resp = "fst (client fakeStore Background ''DELETE''
            (''/api/v1/data?name='' @ Namespace (config fakeStore) @ ''/'' @ ''element-name'') None
            (fakeClient [(''DELETE'', 404)] []))"
        and w' = "snd (client fakeStore Background ''DELETE''
            (''/api/v1/data?name='' @ Namespace (config fakeStore) @ ''/'' @ ''element-name'') None
            (fakeClient [(''DELETE'', 404)] []))"]
    by (simp add: fake_request)
  moreover
  have "fst (Delete fakeStore Background ''element-name''
            ([], fakeClient [(''DELETE'', 200)] [])) = None"
    using not_found_on_404 [where tr = "[]" and name = "''element-name''"
        and s = fakeStore and c = Background and w = "fakeClient [(''DELETE'', 200)] []"
        and resp = "fst (client fakeStore Background ''DELETE''
            (''/api/v1/data?name='' @ Namespace (config fakeStore) @ ''/'' @ ''element-name'') None
            (fakeClient [(''DELETE'', 200)] []))"
        and w' = "snd (client fakeStore Background ''DELETE''
            (''/api/v1/data?name='' @ Namespace (config fakeStore) @ ''/'' @ ''element-name'') None
            (fakeClient [(''DELETE'', 200)] []))"]
    by (simp add: fake_request IsStatusCode2xx_def)
  moreover
  have "fst (Delete fakeStore Background ''element-name''
            ([], fakeClient [(''DELETE'', 500)] ''boom''))
       = Some (ErrorString ''failed to delete entry: , response: boom'')"
    using not_found_on_404 [where tr = "[]" and name = "''element-name''"
        and s = fakeStore and c = Background and w = "fakeClient [(''DELETE'', 500)] ''boom''"
        and resp = "fst (client fakeStore Background ''DELETE''
            (''/api/v1/data?name='' @ Namespace (config fakeStore) @ ''/'' @ ''element-name'') None
            (fakeClient [(''DELETE'', 500)] ''boom''))"
        and w' = "snd (client fakeStore Background ''DELETE''
            (''/api/v1/data?name='' @ Namespace (config fakeStore) @ ''/'' @ ''element-name'') None
            (fakeClient [(''DELETE'', 500)] ''boom''))"]
    by (simp add: fake_request IsStatusCode2xx_def)
  ultimately show ?thesis by blast
qed


lemma put_trace:
  "fst (snd (put J s c name val (tr, w))) =
     (case Marshal J [(''name'', Namespace (config s) @ ''/'' @ name), (''type'', ''value''),
                      (''value'', BytesToJsonString val (ForceBase64ValuesEncoding (config s)))] of
        Inl e \<Rightarrow> tr
      | Inr payload \<Rightarrow> tr @ [Request ''PUT'' ''/api/v1/data'' (Some payload)])"
  by (simp add: put_def Let_def DoRequest_def split: prod.splits option.splits sum.splits)



lemma string_value_raw:
  "BytesToJsonString (bytes_of_string ''string-value'') False = ''string-value''"
  using BytesToJsonString_cases [of False "bytes_of_string ''string-value''"]
    string_value_valid string_value_no_marker string_value_text
  by simp

lemma fake_Marshal:
  \<open>Marshal testJson [(''name'', ''/test-namespace/key''), (''type'', ''value''),
                     (''value'', ''string-value'')]
     = Inr ''{"name":"/test-namespace/key","type":"value","value":"string-value"}''\<close>
  by (simp add: testJson_def quoted_def)







lemma Set_no_call_in_flight:
  "g (Namespace (config s) @ ''/'' @ name) = None \<Longrightarrow>
     Set g J s c name val (tr, w) =
       put J s c name val (tr @ [SfDo (Namespace (config s) @ ''/'' @ name)], w)"
  by (simp add: Set_def Group_Do_def sfGroup_Do_def)

lemma Set_call_in_flight:
  "g (Namespace (config s) @ ''/'' @ name) = Some k \<Longrightarrow>
     Set g J s c name val (tr, w) =
       (call_err k, (tr @ [SfDo (Namespace (config s) @ ''/'' @ name)], w))"
  by (simp add: Set_def Group_Do_def)

text \<open>
  C5. The claim does not hold of the code. \<^verbatim>\<open>Set\<close> calls \<^verbatim>\<open>s.sfGroup.Do\<close> with the key
  \<^verbatim>\<open>namespace/name\<close>, the group and the key that \<^verbatim>\<open>Create\<close> uses, so a \<^verbatim>\<open>Set\<close> that arrives
  while a call with this key is in flight does not run \<^verbatim>\<open>put\<close>. On the store of the
  contract tests, with a call for \<^verbatim>\<open>/test-namespace/key\<close> in flight: if that call fails
  with the already-exists error (a \<^verbatim>\<open>Create\<close> of a key that exists), \<^verbatim>\<open>Set\<close> returns that
  error; if it returns \<^verbatim>\<open>nil\<close> (a call that wrote another value), \<^verbatim>\<open>Set\<close> returns \<^verbatim>\<open>nil\<close>.
  In both cases the trace holds the call of the group and no request: the value of this
  \<^verbatim>\<open>Set\<close> is never sent, and the fake client is left untouched. With no call in
  flight the same \<^verbatim>\<open>Set\<close> sends its one write.
\<close>

theorem Set_joins_call_in_flight:
  \<open>Set [''/test-namespace/key'' \<mapsto> \<lparr>call_err = Some ErrExists\<rparr>] testJson fakeStore
      Background ''key'' (bytes_of_string ''string-value'')
      ([], fakeClient [(''PUT'', 200)] [])
    = (Some ErrExists, ([SfDo ''/test-namespace/key''], fakeClient [(''PUT'', 200)] []))
   \<and> Set [''/test-namespace/key'' \<mapsto> \<lparr>call_err = None\<rparr>] testJson fakeStore
        Background ''key'' (bytes_of_string ''string-value'')
        ([], fakeClient [(''PUT'', 200)] [])
      = (None, ([SfDo ''/test-namespace/key''], fakeClient [(''PUT'', 200)] []))
   \<and> fst (snd (Set Map.empty testJson fakeStore Background ''key''
                 (bytes_of_string ''string-value'') ([], fakeClient [(''PUT'', 200)] [])))
      = [SfDo ''/test-namespace/key'',
         Request ''PUT'' ''/api/v1/data''
           (Some ''{"name":"/test-namespace/key","type":"value","value":"string-value"}'')]\<close>
proof -
  have cfg: "ForceBase64ValuesEncoding (config fakeStore) = False"
    by (simp add: fakeStore_def)
  have "fst (snd (Set Map.empty testJson fakeStore Background ''key''
                 (bytes_of_string ''string-value'') ([], fakeClient [(''PUT'', 200)] [])))
      = fst (snd (put testJson fakeStore Background ''key'' (bytes_of_string ''string-value'')
                    ([SfDo ''/test-namespace/key''], fakeClient [(''PUT'', 200)] [])))"
    using Set_no_call_in_flight [of Map.empty fakeStore "''key''"]
    by (simp add: fake_Namespace)
  then show ?thesis
    by (simp add: Set_call_in_flight fake_Namespace put_trace cfg string_value_raw fake_Marshal)
qed

section \<open>Properties of the list iterator\<close>

lemma Next_nonneg:
  assumes "0 \<le> index s"
  shows "\<exists>r s'. Next s = Some (r, s') \<and> 0 \<le> index s' \<and> ctx s' = ctx s
           \<and> (keys s = [] \<longrightarrow> r = ('''', False) \<and> s' = s)"
  using assms by (auto simp: Next_def Let_def)

lemma calls_nonneg:
  assumes "0 \<le> index s"
  shows "\<exists>s'. calls cs s = Some s' \<and> 0 \<le> index s' \<and> ctx s' = ctx s
           \<and> (keys s = [] \<longrightarrow> keys s' = [])"
  using assms
proof (induction cs arbitrary: s)
  case Nil
  then show ?case by simp
next
  case (Cons c cs)
  show ?case
  proof (cases c)
    case CallNext
    from Next_nonneg [OF Cons.prems] obtain r s1 where
      n: "Next s = Some (r, s1)" "0 \<le> index s1" "ctx s1 = ctx s"
         "keys s = [] \<longrightarrow> r = ('''', False) \<and> s1 = s"
      by blast
    from Cons.IH [OF n(2)] obtain s' where
      "calls cs s1 = Some s'" "0 \<le> index s'" "ctx s' = ctx s1" "keys s1 = [] \<longrightarrow> keys s' = []"
      by blast
    with n CallNext show ?thesis by auto
  next
    case CallClose
    have "0 \<le> index (snd (Close s))" using Cons.prems by (simp add: Close_def)
    from Cons.IH [OF this] obtain s' where
      "calls cs (snd (Close s)) = Some s'" "0 \<le> index s'" "ctx s' = ctx (snd (Close s))"
      "keys (snd (Close s)) = [] \<longrightarrow> keys s' = []"
      by blast
    with CallClose show ?thesis by (auto simp: Close_def)
  qed
qed

lemma calls_append:
  "calls (cs @ ds) s = (case calls cs s of None \<Rightarrow> None | Some s' \<Rightarrow> calls ds s')"
proof (induction cs arbitrary: s)
  case Nil
  then show ?case by simp
next
  case (Cons c cs)
  then show ?case by (cases c) (auto split: option.splits)
qed

text \<open>
  C10. An iterator as \<^verbatim>\<open>List\<close> builds it (cursor 0) is used in any way, closed, and used
  again in any way: no call panics, the next \<^verbatim>\<open>Next()\<close> returns the empty string and
  false and leaves the iterator as it is, and a further \<^verbatim>\<open>Close()\<close> returns the error
  of the context, whatever keys the iterator held.
\<close>

theorem Next_after_Close:
  "\<exists>it. calls (pre @ CallClose # post) \<lparr>keys = ks, index = 0, ctx = c\<rparr> = Some it
        \<and> Next it = Some (('''', False), it)
        \<and> fst (Close it) = Err c"
proof -
  let ?s0 = "\<lparr>keys = ks, index = 0, ctx = c\<rparr>"
  from calls_nonneg [of ?s0 pre] obtain s1 where
    s1: "calls pre ?s0 = Some s1" "0 \<le> index s1" "ctx s1 = c"
    by auto
  let ?s2 = "snd (Close s1)"
  have s2: "0 \<le> index ?s2" "keys ?s2 = []" "ctx ?s2 = c"
    using s1 by (simp_all add: Close_def)
  from calls_nonneg [OF s2(1), of post] s2 obtain it where
    it: "calls post ?s2 = Some it" "0 \<le> index it" "ctx it = c" "keys it = []"
    by auto
  have "calls (pre @ CallClose # post) ?s0 = Some it"
    using s1 it by (simp add: calls_append)
  moreover have "Next it = Some (('''', False), it)"
    using Next_nonneg [OF it(2)] it(4) by auto
  moreover have "fst (Close it) = Err c"
    using it(3) by (simp add: Close_def)
  ultimately show ?thesis by blast
qed

lemma strings_TrimPrefix_append: "strings_TrimPrefix (p @ k) p = k"
  by (simp add: strings_TrimPrefix_def)

lemma Next_live:
  "i < length ks \<Longrightarrow>
     Next \<lparr>keys = ks, index = int i, ctx = c\<rparr> =
       Some ((ks ! i, Suc i < length ks), \<lparr>keys = ks, index = int (Suc i), ctx = c\<rparr>)"
  by (auto simp: Next_def Let_def)

lemma Next_spent:
  "length ks \<le> i \<Longrightarrow>
     Next \<lparr>keys = ks, index = int i, ctx = c\<rparr> =
       Some (('''', False), \<lparr>keys = ks, index = int i, ctx = c\<rparr>)"
  by (auto simp: Next_def)

lemma Next_times_spent:
  "length ks \<le> i \<Longrightarrow>
     Next_times m \<lparr>keys = ks, index = int i, ctx = c\<rparr> =
       Some (replicate m ('''', False), \<lparr>keys = ks, index = int i, ctx = c\<rparr>)"
  by (induction m) (simp_all add: Next_spent)

lemma Next_times_live:
  "i + n = length ks \<Longrightarrow>
     Next_times n \<lparr>keys = ks, index = int i, ctx = c\<rparr> =
       Some (map (\<lambda>j. (ks ! j, Suc j < length ks)) [i..<length ks],
             \<lparr>keys = ks, index = int (length ks), ctx = c\<rparr>)"
proof (induction n arbitrary: i)
  case 0
  then show ?case by simp
next
  case (Suc n)
  then have i: "i < length ks" and r: "Suc i + n = length ks" by simp_all
  show ?case
    using Next_live [OF i, of c] Suc.IH [OF r] i
    by (simp add: upt_conv_Cons)
qed

lemma Next_times_add:
  "Next_times (a + b) s =
     (case Next_times a s of
        None \<Rightarrow> None
      | Some (rs, s') \<Rightarrow>
          (case Next_times b s' of
             None \<Rightarrow> None
           | Some (rs', s'') \<Rightarrow> Some (rs @ rs', s'')))"
  by (induction a arbitrary: s) (auto split: option.splits)

lemma Next_times_all:
  "Next_times (length ks + m) \<lparr>keys = ks, index = 0, ctx = c\<rparr> =
     Some (map (\<lambda>j. (ks ! j, Suc j < length ks)) [0..<length ks] @ replicate m ('''', False),
           \<lparr>keys = ks, index = int (length ks), ctx = c\<rparr>)"
  using Next_times_live [of 0 "length ks" ks c] Next_times_spent [of ks "length ks" m c]
  by (simp add: Next_times_add)

lemma List_2xx:
  assumes "client s c ''GET'' (''/api/v1/data?path='' @ Namespace (config s) @ ''/'') None w
           = (resp, w')"
    and "err resp = None" and "IsStatusCode2xx resp"
    and "DecodeCredentials J (Body resp) = Inr credentials"
  shows "List J s c (tr, w) =
           (Inr \<lparr>keys = map (\<lambda>name. strings_TrimPrefix name (Namespace (config s) @ ''/''))
                            credentials,
                 index = 0, ctx = c\<rparr>,
            (tr @ [Request ''GET'' (''/api/v1/data?path='' @ Namespace (config s) @ ''/'') None],
             w'))"
  unfolding List_def Let_def using DoRequest_eq [OF assms(1), of tr] assms(2,3,4)
  by simp

text \<open>
  C7. A \<^verbatim>\<open>List\<close> whose request was answered with a 2xx status and the credential names
  \<^verbatim>\<open>namespace/k1\<close>, ..., \<^verbatim>\<open>namespace/kn\<close> returns an iterator over \<open>k1\<close>, ..., \<open>kn\<close>: its
  first \<open>n\<close> calls of \<^verbatim>\<open>Next()\<close> return the keys in the order of the response, with
  \<open>True\<close> for all but the last and \<open>False\<close> for the last, and every later call returns
  the empty string and \<open>False\<close>; for no credentials the first call already does.
\<close>

theorem List_iterates:
  assumes "client s c ''GET'' (''/api/v1/data?path='' @ Namespace (config s) @ ''/'') None w
           = (resp, w')"
    and "err resp = None" and "IsStatusCode2xx resp"
    and "DecodeCredentials J (Body resp) = Inr (map (\<lambda>k. Namespace (config s) @ ''/'' @ k) ks)"
  shows "fst (List J s c (tr, w)) = Inr \<lparr>keys = ks, index = 0, ctx = c\<rparr>
         \<and> (\<forall>m. \<exists>it'.
               Next_times (length ks + m) \<lparr>keys = ks, index = 0, ctx = c\<rparr> =
                 Some (map (\<lambda>j. (ks ! j, Suc j < length ks)) [0..<length ks]
                         @ replicate m ('''', False), it'))
         \<and> (ks = [] \<longrightarrow>
              (\<exists>it'. Next \<lparr>keys = ks, index = 0, ctx = c\<rparr> = Some (('''', False), it')))"
proof -
  have "map (\<lambda>name. strings_TrimPrefix name (Namespace (config s) @ ''/''))
          (map (\<lambda>k. Namespace (config s) @ ''/'' @ k) ks) = ks"
    using strings_TrimPrefix_append [of "Namespace (config s) @ ''/''"]
    by (simp add: comp_def map_idI)
  then have "fst (List J s c (tr, w)) = Inr \<lparr>keys = ks, index = 0, ctx = c\<rparr>"
    using List_2xx [OF assms, of tr] by simp
  moreover have "\<forall>m. \<exists>it'.
               Next_times (length ks + m) \<lparr>keys = ks, index = 0, ctx = c\<rparr> =
                 Some (map (\<lambda>j. (ks ! j, Suc j < length ks)) [0..<length ks]
                         @ replicate m ('''', False), it')"
    using Next_times_all [of ks _ c] by blast
  moreover have "ks = [] \<longrightarrow>
      (\<exists>it'. Next \<lparr>keys = ks, index = 0, ctx = c\<rparr> = Some (('''', False), it'))"
    using Next_spent [of ks 0 c] by simp
  ultimately show ?thesis by blast
qed

lemma testJson_credentials:
  "DecodeCredentials testJson noCredentialsBody = Inr []"
  "DecodeCredentials testJson twoCredentialsBody
     = Inr (map (\<lambda>k. Namespace (config fakeStore) @ ''/'' @ k) [''key-1'', ''key-2''])"
  by (simp_all add: testJson_def noCredentialsBody_def twoCredentialsBody_def fake_Namespace)

theorem List_iterates_witness:
  "fst (List testJson fakeStore Background ([], fakeClient [(''GET'', 200)] twoCredentialsBody))
     = Inr \<lparr>keys = [''key-1'', ''key-2''], index = 0, ctx = Background\<rparr>
   \<and> (\<exists>it'. Next_times 3 \<lparr>keys = [''key-1'', ''key-2''], index = 0, ctx = Background\<rparr>
          = Some ([(''key-1'', True), (''key-2'', False), ('''', False)], it'))
   \<and> fst (List testJson fakeStore Background ([], fakeClient [(''GET'', 200)] noCredentialsBody))
       = Inr \<lparr>keys = [], index = 0, ctx = Background\<rparr>
   \<and> (\<exists>it'. Next \<lparr>keys = [], index = 0, ctx = Background\<rparr> = Some (('''', False), it'))"
proof -
  have ok: "IsStatusCode2xx \<lparr>StatusCode = 200, Status = [], Body = rb, err = None\<rparr>" for rb
    by (simp add: IsStatusCode2xx_def)
  have two:
    "fst (List testJson fakeStore Background
            ([], fakeClient [(''GET'', 200)] twoCredentialsBody))
       = Inr \<lparr>keys = [''key-1'', ''key-2''], index = 0, ctx = Background\<rparr>
     \<and> (\<forall>m. \<exists>it'.
           Next_times (length [''key-1'', ''key-2''] + m)
              \<lparr>keys = [''key-1'', ''key-2''], index = 0, ctx = Background\<rparr> =
             Some (map (\<lambda>j. ([''key-1'', ''key-2''] ! j, Suc j < length [''key-1'', ''key-2'']))
                     [0..<length [''key-1'', ''key-2'']]
                   @ replicate m ('''', False), it'))"
    using List_iterates [where J = testJson and s = fakeStore and c = Background
        and tr = "[]" and ks = "[''key-1'', ''key-2'']"
        and w = "fakeClient [(''GET'', 200)] twoCredentialsBody",
        OF fake_request [where codes = "[(''GET'', 200)]" and rb = twoCredentialsBody
          and body = None, simplified]]
      ok testJson_credentials(2)
    by simp
  then have "\<exists>it'.
           Next_times (length [''key-1'', ''key-2''] + 1)
              \<lparr>keys = [''key-1'', ''key-2''], index = 0, ctx = Background\<rparr> =
             Some (map (\<lambda>j. ([''key-1'', ''key-2''] ! j, Suc j < length [''key-1'', ''key-2'']))
                     [0..<length [''key-1'', ''key-2'']]
                   @ replicate 1 ('''', False), it')"
    by blast
  then have three:
    "\<exists>it'. Next_times 3 \<lparr>keys = [''key-1'', ''key-2''], index = 0, ctx = Background\<rparr>
          = Some ([(''key-1'', True), (''key-2'', False), ('''', False)], it')"
    by (simp add: upt_rec numeral_3_eq_3)
  have none:
    "fst (List testJson fakeStore Background
            ([], fakeClient [(''GET'', 200)] noCredentialsBody))
       = Inr \<lparr>keys = [], index = 0, ctx = Background\<rparr>
     \<and> (\<exists>it'. Next \<lparr>keys = [], index = 0, ctx = Background\<rparr> = Some (('''', False), it'))"
    using List_iterates [where J = testJson and s = fakeStore and c = Background
        and tr = "[]" and ks = "[]"
        and w = "fakeClient [(''GET'', 200)] noCredentialsBody",
        OF fake_request [where codes = "[(''GET'', 200)]" and rb = noCredentialsBody
          and body = None, simplified]]
      ok testJson_credentials(1)
    by simp
  show ?thesis using two three none by blast
qed

section \<open>Properties of the static-list store\<close>

text \<open>
  C9 as stated fails: \<^verbatim>\<open>Create\<close> of a key that the static list holds returns the
  key-exists error, and \<^verbatim>\<open>Delete\<close> of a key that it does not hold returns the
  key-not-found error; neither is the not-allowed error.
\<close>

theorem static_mutation_counterexample:
  "\<not> assertErrorIs (static_Create staticFakeStore ''key1'' (bytes_of_string ''x''))
        ErrNotAllowed
   \<and> assertErrorIs (static_Create staticFakeStore ''key1'' (bytes_of_string ''x''))
        ErrKeyExists
   \<and> \<not> assertErrorIs (static_Delete staticFakeStore ''new-key'') ErrNotAllowed
   \<and> assertErrorIs (static_Delete staticFakeStore ''new-key'') ErrKeyNotFound"
  by (simp add: assertErrorIs_def static_Create_def static_Delete_def staticFakeStore_def)

text \<open>
  C9, as amended. On the static list \<^verbatim>\<open>Set\<close> always returns the not-allowed error;
  \<^verbatim>\<open>Create\<close> returns the key-exists error for a key the list holds and the not-allowed
  error for any other; \<^verbatim>\<open>Delete\<close> returns the key-not-found error for a key the list
  does not hold and the not-allowed error for one it holds. \<^verbatim>\<open>Get\<close> returns the bytes of
  the value of a key, or the key-not-found error, and \<^verbatim>\<open>List\<close> returns an iterator at
  cursor 0 over exactly the keys of the list.
\<close>

theorem static_store_contract:
  "assertErrorIs (static_Set cfg name val) ErrNotAllowed
   \<and> assertErrorIs (static_Create cfg name val)
        (if name \<in> fst ` set (Entries cfg) then ErrKeyExists else ErrNotAllowed)
   \<and> assertErrorIs (static_Delete cfg name)
        (if name \<in> fst ` set (Entries cfg) then ErrNotAllowed else ErrKeyNotFound)
   \<and> static_Get cfg name =
        (case map_of (Entries cfg) name of
           None \<Rightarrow> Inl ErrKeyNotFound
         | Some v \<Rightarrow> Inr (bytes_of_string v))
   \<and> (\<exists>it. static_List cfg c = Inr it \<and> index it = 0 \<and> ctx it = c
          \<and> length (keys it) = length (Entries cfg)
          \<and> set (keys it) = fst ` set (Entries cfg))"
proof -
  have m: "map_of (Entries cfg) name = None \<longleftrightarrow> name \<notin> fst ` set (Entries cfg)"
    by (simp add: map_of_eq_None_iff)
  show ?thesis
    using m
    by (auto simp: assertErrorIs_def static_Set_def static_Create_def static_Delete_def
        static_Get_def static_List_def split: option.splits)
qed

theorem static_store_contract_witness:
  "assertErrorIs (static_Set staticFakeStore ''some-key'' (bytes_of_string ''x'')) ErrNotAllowed
   \<and> assertErrorIs (static_Create staticFakeStore ''key1'' (bytes_of_string ''x'')) ErrKeyExists
   \<and> assertErrorIs (static_Create staticFakeStore ''new-key'' (bytes_of_string ''x''))
        ErrNotAllowed
   \<and> assertErrorIs (static_Delete staticFakeStore ''new-key'') ErrKeyNotFound
   \<and> assertErrorIs (static_Delete staticFakeStore ''key1'') ErrNotAllowed
   \<and> static_Get staticFakeStore ''key1'' = Inr (bytes_of_string ''value1'')
   \<and> static_Get staticFakeStore ''new-key'' = Inl ErrKeyNotFound"
proof -
  have e: "Entries staticFakeStore = [(''key1'', ''value1''), (''key2'', ''value2'')]"
    by (simp add: staticFakeStore_def)
  show ?thesis
    using static_store_contract [of staticFakeStore "''some-key''" "bytes_of_string ''x''"]
      static_store_contract [of staticFakeStore "''key1''" "bytes_of_string ''x''"]
      static_store_contract [of staticFakeStore "''new-key''" "bytes_of_string ''x''"]
    by (simp add: e)
qed

end
